theory Spec2Isabelle
  imports Complex_Main
begin

section \<open>Python values, exceptions and printed output\<close>

text \<open>
  The exceptions that the modelled code can raise. A function that can raise returns
  a value of type \<open>py_error + 'a\<close>, with \<open>Inl\<close> for the exception.
\<close>

datatype py_error =
    KeyError
  | ValueError
  | TypeError
  | AttributeError
  | UnboundLocalError
  | IndexError
  | FileNotFoundError
  | NotADirectoryError
  | IsADirectoryError
  | UnidentifiedImageError
  | EmptyDataError

text \<open>
  A path is the list of its components, so that \<open>directory_path / p\<close> appends one
  component and \<open>Path.name\<close> is the last one.
\<close>

type_synonym path = "string list"

text \<open>
  A Python float: a finite number, an infinity or NaN. A finite float is modelled by
  the real number it denotes, and arithmetic on finite floats is exact: rounding and
  overflow are outside the model. The infinities and NaN follow IEEE 754.
\<close>

datatype pyfloat = Finite real | PosInf | NegInf | NaN

text \<open>Addition of two floats.\<close>

fun fadd :: "pyfloat \<Rightarrow> pyfloat \<Rightarrow> pyfloat" where
  "fadd (Finite a) (Finite b) = Finite (a + b)"
| "fadd NaN y = NaN"
| "fadd x NaN = NaN"
| "fadd PosInf NegInf = NaN"
| "fadd NegInf PosInf = NaN"
| "fadd PosInf y = PosInf"
| "fadd x PosInf = PosInf"
| "fadd NegInf y = NegInf"
| "fadd x NegInf = NegInf"

text \<open>Division of a float by a positive integer constant.\<close>

fun fdiv :: "pyfloat \<Rightarrow> nat \<Rightarrow> pyfloat" where
  "fdiv (Finite a) c = Finite (a / real c)"
| "fdiv x c = x"

text \<open>The product of an integer and a float, the integer being 1 or -1 in the code.\<close>

fun fmul :: "int \<Rightarrow> pyfloat \<Rightarrow> pyfloat" where
  "fmul m (Finite a) = Finite (of_int m * a)"
| "fmul m NaN = NaN"
| "fmul m PosInf = (if 0 < m then PosInf else if m < 0 then NegInf else NaN)"
| "fmul m NegInf = (if 0 < m then NegInf else if m < 0 then PosInf else NaN)"

text \<open>
  The values Pillow delivers for EXIF tags: text for ASCII tags, a byte string, a
  single number, or a tuple of numbers. A number stands for the float that \<open>float\<close>
  makes of it; a GPS coordinate is a tuple of three rationals, and the float of a
  rational with denominator 0 is NaN. Text is a string of characters with code points
  below 256.
\<close>

datatype exif_value =
    Str string
  | Bytes "nat list"
  | Number pyfloat
  | Numbers "pyfloat list"

text \<open>What the code prints, in order.\<close>

datatype event =
    Not_valid_path path
  | Incorrect_hemisphere exif_value
  | Photos_added nat nat

subsection \<open>\<open>str.upper\<close> and \<open>str.lower\<close>\<close>

text \<open>
  Both change the ASCII letters and leave every other character as it is. Python also
  changes some characters above 127, but none of them to or from an ASCII character
  (among the code points below 256), so the comparisons of the code with \<open>N\<close>, \<open>S\<close>,
  \<open>E\<close>, \<open>W\<close> and with the three extensions are decided as Python decides them.
\<close>

definition upper_char :: "char \<Rightarrow> char" where
  "upper_char c =
     (case map_of (zip ''abcdefghijklmnopqrstuvwxyz'' ''ABCDEFGHIJKLMNOPQRSTUVWXYZ'') c of
        Some u \<Rightarrow> u
      | None \<Rightarrow> c)"

definition lower_char :: "char \<Rightarrow> char" where
  "lower_char c =
     (case map_of (zip ''ABCDEFGHIJKLMNOPQRSTUVWXYZ'' ''abcdefghijklmnopqrstuvwxyz'') c of
        Some l \<Rightarrow> l
      | None \<Rightarrow> c)"

definition upper :: "string \<Rightarrow> string" where
  "upper s = map upper_char s"

definition lower :: "string \<Rightarrow> string" where
  "lower s = map lower_char s"

section \<open>Coordinate conversion (photos_util.py)\<close>

text \<open>
  \<open>float(i)\<close> for one element \<open>i\<close> of \<open>coords\<close>. Iterating a tuple of numbers
  yields numbers, iterating bytes yields integers, and iterating text yields
  one-character strings, which \<open>float\<close> accepts only when they are a decimal digit.
\<close>

definition float_of_char :: "char \<Rightarrow> py_error + pyfloat" where
  "float_of_char c =
     (case map_of (zip ''0123456789'' [0, 1, 2, 3, 4, 5, 6, 7, 8, 9 :: real]) c of
        Some r \<Rightarrow> Inr (Finite r)
      | None \<Rightarrow> Inl ValueError)"

fun collect :: "(py_error + 'a) list \<Rightarrow> py_error + 'a list" where
  "collect [] = Inr []"
| "collect (Inl e # _) = Inl e"
| "collect (Inr x # rest) = (case collect rest of Inl e \<Rightarrow> Inl e | Inr xs \<Rightarrow> Inr (x # xs))"

text \<open>\<open>[float(i) for i in coords]\<close>: the first element that fails raises.\<close>

fun floats_of :: "exif_value \<Rightarrow> py_error + pyfloat list" where
  "floats_of (Numbers rs) = Inr rs"
| "floats_of (Bytes bs) = Inr (map (\<lambda>b. Finite (real b)) bs)"
| "floats_of (Str s) = collect (map float_of_char s)"
| "floats_of (Number r) = Inl TypeError"

text \<open>
  \<open>ref.upper() in [...]\<close>. Only text has the method \<open>upper\<close> with a result that can equal
  one of the letters; a bytes value has the method but never equals a string; numbers
  and tuples have no such method.
\<close>

fun ref_upper :: "exif_value \<Rightarrow> py_error + string option" where
  "ref_upper (Str s) = Inr (Some (upper s))"
| "ref_upper (Bytes bs) = Inr None"
| "ref_upper (Number r) = Inl AttributeError"
| "ref_upper (Numbers rs) = Inl AttributeError"

text \<open>
  The sign multiplier \<open>mul\<close>: \<open>None\<close> is the unbound local variable of the \<open>else\<close>
  branch, which only prints.
\<close>

definition hemisphere_sign :: "string option \<Rightarrow> int option" where
  "hemisphere_sign u =
     (if u \<in> {Some ''W'', Some ''S''} then Some (- 1)
      else if u \<in> {Some ''E'', Some ''N''} then Some 1
      else None)"

text \<open>
  The returned expression \<open>mul * (coords[0] + coords[1] / 60 + coords[2] / 3600)\<close>,
  evaluated left to right: the unbound \<open>mul\<close> is read first, then the three indices.
\<close>

definition signed_decimal :: "int option \<Rightarrow> pyfloat list \<Rightarrow> py_error + pyfloat" where
  "signed_decimal mul coords =
     (case mul of
        None \<Rightarrow> Inl UnboundLocalError
      | Some m \<Rightarrow>
          (if length coords < 3 then Inl IndexError
           else Inr (fmul m (fadd (fadd (coords ! 0) (fdiv (coords ! 1) 60))
                                  (fdiv (coords ! 2) 3600)))))"

definition convert_coords_to_decimal ::
    "exif_value \<Rightarrow> exif_value \<Rightarrow> event list \<times> (py_error + pyfloat)" where
  "convert_coords_to_decimal coords ref =
     (case ref_upper ref of
        Inl e \<Rightarrow> ([], Inl e)
      | Inr u \<Rightarrow>
          (let mul = hemisphere_sign u;
               out = (if mul = None then [Incorrect_hemisphere ref] else [])
           in case floats_of coords of
                Inl e \<Rightarrow> (out, Inl e)
              | Inr fs \<Rightarrow> (out, signed_decimal mul fs)))"

section \<open>Paths and the file system\<close>

text \<open>\<open>PurePath.name\<close>: the final component, empty for a path without components.\<close>

definition path_name :: "path \<Rightarrow> string" where
  "path_name p = (if p = [] then [] else last p)"

text \<open>\<open>str.rfind\<close> for one character: the index of its last occurrence.\<close>

definition rfind :: "char \<Rightarrow> string \<Rightarrow> nat option" where
  "rfind c s =
     (if c \<in> set s then Some (length s - 1 - length (takeWhile (\<lambda>x. x \<noteq> c) (rev s)))
      else None)"

text \<open>
  \<open>PurePath.suffix\<close> as pathlib defines it: with \<open>i = name.rfind('.')\<close>, the text
  \<open>name[i:]\<close> when \<open>0 < i < len(name) - 1\<close>, and the empty string otherwise.
\<close>

definition path_suffix :: "path \<Rightarrow> string" where
  "path_suffix p =
     (let name = path_name p in
      case rfind CHR ''.'' name of
        None \<Rightarrow> []
      | Some i \<Rightarrow> (if 0 < i \<and> i < length name - 1 then drop i name else []))"

text \<open>
  The EXIF data of an image: the main tag table, and the nested tag directories
  addressed by a tag of the main table. Both are keyed by numeric tag ids.
\<close>

record exif =
  ifd0 :: "(nat \<times> exif_value) list"
  sub_ifds :: "(nat \<times> (nat \<times> exif_value) list) list"

record datetime =
  dt_year :: nat
  dt_month :: nat
  dt_day :: nat
  dt_hour :: nat
  dt_minute :: nat
  dt_second :: nat

text \<open>
  One row of the data frame. The type of the \<open>day\<close> column is a parameter: it is an
  integer when \<open>construct_df\<close> returns, and \<open>get_df\<close> replaces it.
\<close>

record 'd photo_row =
  filename :: string
  datetime :: datetime
  latitude :: pyfloat
  longitude :: pyfloat
  day :: 'd

text \<open>A cell of a column of a frame: an integer, a string or a float.\<close>

datatype cell = Int_cell int | Str_cell string | Float_cell pyfloat

text \<open>
  What a path names: a directory with the names \<open>os.listdir\<close> gives, an image file
  that Pillow can open, the file \<open>to_csv\<close> wrote for a frame, or any other file.
\<close>

datatype node =
    Directory "string list"
  | Image_file exif
  | Csv_file "cell photo_row list"
  | Other_file

type_synonym filesystem = "path \<Rightarrow> node option"

definition path_exists :: "filesystem \<Rightarrow> path \<Rightarrow> bool" where
  "path_exists fs p = (fs p \<noteq> None)"

definition listdir :: "filesystem \<Rightarrow> path \<Rightarrow> py_error + string list" where
  "listdir fs p =
     (case fs p of
        None \<Rightarrow> Inl FileNotFoundError
      | Some (Directory names) \<Rightarrow> Inr names
      | Some _ \<Rightarrow> Inl NotADirectoryError)"

section \<open>File discovery (photos_util.py)\<close>

definition default_extensions :: "string list" where
  "default_extensions = [''.jpg'', ''.jpeg'', ''.heic'']"

text \<open>
  After the printed message the result is \<open>None\<close> when the path does not exist;
  otherwise it is the list of the entries whose suffix matches, whatever kind of entry
  each is (\<open>os.listdir\<close> gives files and directories alike).
\<close>

definition get_photos_from_path ::
    "filesystem \<Rightarrow> path \<Rightarrow> string list \<Rightarrow> event list \<times> (py_error + path list option)" where
  "get_photos_from_path fs directory_path extensions =
     (if \<not> path_exists fs directory_path then ([Not_valid_path directory_path], Inr None)
      else case listdir fs directory_path of
             Inl e \<Rightarrow> ([], Inl e)
           | Inr names \<Rightarrow>
               ([], Inr (Some (map (\<lambda>p. directory_path @ [p])
                            (filter (\<lambda>p. lower (path_suffix [p]) \<in> set extensions) names)))))"

section \<open>Metadata extraction (photos_util.py)\<close>

text \<open>
  \<open>Image.open\<close>: only an image file opens. Of an open image the model keeps the EXIF
  data, which is all the code reads.
\<close>

type_synonym image = exif

definition get_image :: "filesystem \<Rightarrow> path \<Rightarrow> py_error + image" where
  "get_image fs filepath =
     (case fs filepath of
        None \<Rightarrow> Inl FileNotFoundError
      | Some (Directory names) \<Rightarrow> Inl IsADirectoryError
      | Some (Image_file x) \<Rightarrow> Inr x
      | Some _ \<Rightarrow> Inl UnidentifiedImageError)"

definition get_exif :: "image \<Rightarrow> exif" where
  "get_exif img = img"

text \<open>
  The entries of Pillow's registries \<open>ExifTags.TAGS\<close> and \<open>ExifTags.GPSTAGS\<close> that
  name the tags the code reads, with some of their neighbours. A tag id that a
  registry does not name keeps its number as key (\<open>TAGS.get(key, key)\<close>); here that
  also holds for the ids outside this excerpt, whose keys the code never reads.
\<close>

definition TAGS :: "(nat \<times> string) list" where
  "TAGS = [(271, ''Make''), (272, ''Model''), (274, ''Orientation''), (306, ''DateTime''),
           (34665, ''ExifOffset''), (34853, ''GPSInfo''), (36867, ''DateTimeOriginal'')]"

definition GPSTAGS :: "(nat \<times> string) list" where
  "GPSTAGS = [(0, ''GPSVersionID''), (1, ''GPSLatitudeRef''), (2, ''GPSLatitude''),
              (3, ''GPSLongitudeRef''), (4, ''GPSLongitude''), (5, ''GPSAltitudeRef''),
              (6, ''GPSAltitude''), (7, ''GPSTimeStamp''), (29, ''GPSDateStamp'')]"

datatype tag_key = Tag_name string | Tag_id nat

type_synonym tag_dict = "tag_key \<Rightarrow> exif_value option"

definition tag_label :: "(nat \<times> string) list \<Rightarrow> nat \<Rightarrow> tag_key" where
  "tag_label registry key =
     (case map_of registry key of Some n \<Rightarrow> Tag_name n | None \<Rightarrow> Tag_id key)"

text \<open>A dict comprehension over the items of a tag table: a later item wins.\<close>

definition labeled :: "(nat \<times> string) list \<Rightarrow> (nat \<times> exif_value) list \<Rightarrow> tag_dict" where
  "labeled registry items =
     fold (\<lambda>(key, v) d. d(tag_label registry key \<mapsto> v)) items Map.empty"

definition get_labeled_exif :: "exif \<Rightarrow> tag_dict" where
  "get_labeled_exif x = labeled TAGS (ifd0 x)"

text \<open>\<open>Exif.get_ifd\<close>: the nested directory, empty when the image has none.\<close>

definition get_ifd :: "exif \<Rightarrow> nat \<Rightarrow> (nat \<times> exif_value) list" where
  "get_ifd x key = (case map_of (sub_ifds x) key of Some d \<Rightarrow> d | None \<Rightarrow> [])"

text \<open>
  The loop over \<open>TAGS.items()\<close> returns at the first tag named \<open>GPSInfo\<close>; the result
  is \<open>None\<close> when the registry has none.
\<close>

fun get_gps_info_loop :: "(nat \<times> string) list \<Rightarrow> exif \<Rightarrow> tag_dict option" where
  "get_gps_info_loop [] x = None"
| "get_gps_info_loop ((key, v) # rest) x =
     (if v = ''GPSInfo'' then Some (labeled GPSTAGS (get_ifd x key))
      else get_gps_info_loop rest x)"

definition get_gps_info :: "exif \<Rightarrow> tag_dict option" where
  "get_gps_info x = get_gps_info_loop TAGS x"

section \<open>\<open>datetime.strptime\<close> with the format \<open>%Y:%m:%d %H:%M:%S\<close>\<close>

text \<open>
  The library turns the format into a regular expression and matches it at the start
  of the text by backtracking. A matcher gives every way to match a prefix, as the
  pairs of matched text and rest, in the order in which backtracking tries them.
\<close>

type_synonym matcher = "string \<Rightarrow> (string \<times> string) list"

definition one_of :: "string \<Rightarrow> matcher" where
  "one_of cls s = (case s of [] \<Rightarrow> [] | c # r \<Rightarrow> (if c \<in> set cls then [([c], r)] else []))"

definition seq :: "matcher \<Rightarrow> matcher \<Rightarrow> matcher" where
  "seq p q s = concat (map (\<lambda>(a, r). map (\<lambda>(b, r'). (a @ b, r')) (q r)) (p s))"

definition alt :: "matcher \<Rightarrow> matcher \<Rightarrow> matcher" where
  "alt p q s = p s @ q s"

definition digit :: matcher where
  "digit = one_of ''0123456789''"

definition nonzero :: matcher where
  "nonzero = one_of ''123456789''"

text \<open>The characters with code points below 256 that \<open>\s\<close> matches in a text pattern.\<close>

definition whitespace :: "char list" where
  "whitespace = [CHR 0x09, CHR 0x0A, CHR 0x0B, CHR 0x0C, CHR 0x0D,
                 CHR 0x1C, CHR 0x1D, CHR 0x1E, CHR 0x1F, CHR 0x20, CHR 0x85, CHR 0xA0]"

text \<open>\<open>\s+\<close> is greedy: the longest run first, then shorter ones.\<close>

definition spaces :: matcher where
  "spaces s =
     map (\<lambda>k. (take k s, drop k s))
       (rev [1 ..< Suc (length (takeWhile (\<lambda>c. c \<in> set whitespace) s))])"

definition re_Y :: matcher where
  "re_Y = seq digit (seq digit (seq digit digit))"

definition re_m :: matcher where
  "re_m = alt (seq (one_of ''1'') (one_of ''012'')) (alt (seq (one_of ''0'') nonzero) nonzero)"

definition re_d :: matcher where
  "re_d = alt (seq (one_of ''3'') (one_of ''01''))
            (alt (seq (one_of ''12'') digit)
              (alt (seq (one_of ''0'') nonzero)
                (alt nonzero (seq (one_of '' '') nonzero))))"

definition re_H :: matcher where
  "re_H = alt (seq (one_of ''2'') (one_of ''0123'')) (alt (seq (one_of ''01'') digit) digit)"

definition re_M :: matcher where
  "re_M = alt (seq (one_of ''012345'') digit) digit"

definition re_S :: matcher where
  "re_S = alt (seq (one_of ''6'') (one_of ''01'')) (alt (seq (one_of ''012345'') digit) digit)"

definition colon :: matcher where
  "colon = one_of '':''"

text \<open>The whole expression, with its six groups and the text left after the match.\<close>

definition format_regex ::
    "string \<Rightarrow> ((string \<times> string \<times> string \<times> string \<times> string \<times> string) \<times> string) list" where
  "format_regex s =
     [((Y, m, d, H, M, S), r11).
        (Y, r1) \<leftarrow> re_Y s, (c1, r2) \<leftarrow> colon r1,
        (m, r3) \<leftarrow> re_m r2, (c2, r4) \<leftarrow> colon r3,
        (d, r5) \<leftarrow> re_d r4, (w, r6) \<leftarrow> spaces r5,
        (H, r7) \<leftarrow> re_H r6, (c3, r8) \<leftarrow> colon r7,
        (M, r9) \<leftarrow> re_M r8, (c4, r10) \<leftarrow> colon r9,
        (S, r11) \<leftarrow> re_S r10]"

text \<open>\<open>int\<close> of a group: decimal digits, after the blank the day group may start with.\<close>

definition digit_value :: "char \<Rightarrow> nat" where
  "digit_value c =
     (case map_of (zip ''0123456789'' [0, 1, 2, 3, 4, 5, 6, 7, 8, 9 :: nat]) c of
        Some n \<Rightarrow> n
      | None \<Rightarrow> 0)"

definition int_of_group :: "string \<Rightarrow> nat" where
  "int_of_group g =
     foldl (\<lambda>n c. 10 * n + digit_value c) 0 (filter (\<lambda>c. c \<noteq> CHR '' '') g)"

definition is_leap :: "nat \<Rightarrow> bool" where
  "is_leap y = (y mod 4 = 0 \<and> (y mod 100 \<noteq> 0 \<or> y mod 400 = 0))"

definition days_in_month :: "nat \<Rightarrow> nat \<Rightarrow> nat" where
  "days_in_month y m =
     (if m = 2 then (if is_leap y then 29 else 28)
      else if m \<in> {4, 6, 9, 11} then 30
      else 31)"

text \<open>
  A value that is not text is a \<open>TypeError\<close>. Text that the expression does not
  match, text with characters left after the match, and fields that are no date and
  time (year 0, a day the month does not have, a second above 59) are a \<open>ValueError\<close>.
\<close>

fun strptime :: "exif_value \<Rightarrow> py_error + datetime" where
  "strptime (Str s) =
     (case format_regex s of
        [] \<Rightarrow> Inl ValueError
      | ((Y, m, d, H, M, S), rest) # _ \<Rightarrow>
          (let year = int_of_group Y; month = int_of_group m; dd = int_of_group d;
               second = int_of_group S
           in if rest \<noteq> [] then Inl ValueError
              else if year < 1 \<or> days_in_month year month < dd \<or> 59 < second
                then Inl ValueError
              else Inr \<lparr>dt_year = year, dt_month = month, dt_day = dd,
                        dt_hour = int_of_group H, dt_minute = int_of_group M,
                        dt_second = second\<rparr>))"
| "strptime _ = Inl TypeError"

section \<open>Record assembly (photos_util.py)\<close>

text \<open>\<open>d[k]\<close> for a tag name \<open>k\<close>: a missing key raises \<open>KeyError\<close>.\<close>

definition subscript :: "tag_dict \<Rightarrow> string \<Rightarrow> py_error + exif_value" where
  "subscript d k = (case d (Tag_name k) of None \<Rightarrow> Inl KeyError | Some v \<Rightarrow> Inr v)"

text \<open>
  The expression \<open>convert_coords_to_decimal(img_gps[k], img_gps[kref])\<close>: both
  arguments are looked up before the call, and subscripting \<open>None\<close> is a \<open>TypeError\<close>.
\<close>

definition converted ::
    "tag_dict option \<Rightarrow> string \<Rightarrow> string \<Rightarrow> event list \<times> (py_error + pyfloat)" where
  "converted img_gps k kref =
     (case img_gps of
        None \<Rightarrow> ([], Inl TypeError)
      | Some gps \<Rightarrow>
          (case subscript gps k of
             Inl e \<Rightarrow> ([], Inl e)
           | Inr coords \<Rightarrow>
               (case subscript gps kref of
                  Inl e \<Rightarrow> ([], Inl e)
                | Inr ref \<Rightarrow> convert_coords_to_decimal coords ref)))"

text \<open>The body of the \<open>try\<close> block: the row for one photo, or the exception it raises.\<close>

definition photo_record ::
    "path \<Rightarrow> tag_dict \<Rightarrow> tag_dict option \<Rightarrow> event list \<times> (py_error + int photo_row)" where
  "photo_record photo img_tags img_gps =
     (case converted img_gps ''GPSLatitude'' ''GPSLatitudeRef'' of
        (out1, Inl e) \<Rightarrow> (out1, Inl e)
      | (out1, Inr lat) \<Rightarrow>
          (case converted img_gps ''GPSLongitude'' ''GPSLongitudeRef'' of
             (out2, Inl e) \<Rightarrow> (out1 @ out2, Inl e)
           | (out2, Inr lon) \<Rightarrow>
               (case subscript img_tags ''DateTime'' of
                  Inl e \<Rightarrow> (out1 @ out2, Inl e)
                | Inr v \<Rightarrow>
                    (case strptime v of
                       Inl e \<Rightarrow> (out1 @ out2, Inl e)
                     | Inr date \<Rightarrow>
                         (out1 @ out2,
                          Inr \<lparr>filename = path_name photo, datetime = date, latitude = lat,
                               longitude = lon, day = int (dt_day date)\<rparr>)))))"

definition emit :: "event list \<Rightarrow> event list \<times> 'a \<Rightarrow> event list \<times> 'a" where
  "emit out r = (out @ fst r, snd r)"

text \<open>
  The loop of \<open>construct_df\<close> with its state: the frame \<open>df\<close> (the rows so far, the row
  at position \<open>k\<close> having index \<open>k\<close>) and the counter \<open>i\<close>. Only \<open>KeyError\<close> is caught;
  opening the image is outside the \<open>try\<close> block.
\<close>

fun construct_df_loop ::
    "filesystem \<Rightarrow> path list \<Rightarrow> int photo_row list \<Rightarrow> nat \<Rightarrow>
     event list \<times> (py_error + int photo_row list \<times> nat)" where
  "construct_df_loop fs [] df i = ([], Inr (df, i))"
| "construct_df_loop fs (photo # photos) df i =
     (if lower (path_suffix photo) \<notin> set [''.jpg'', ''.jpeg'', ''.heic'']
      then construct_df_loop fs photos df i
      else case get_image fs photo of
             Inl e \<Rightarrow> ([], Inl e)
           | Inr img \<Rightarrow>
               (let img_exif = get_exif img;
                    img_tags = get_labeled_exif img_exif;
                    img_gps = get_gps_info img_exif
                in case photo_record photo img_tags img_gps of
                     (out, Inl e) \<Rightarrow>
                       (if e = KeyError then emit out (construct_df_loop fs photos df i)
                        else (out, Inl e))
                   | (out, Inr d) \<Rightarrow>
                       emit out (construct_df_loop fs photos (df @ [d]) (Suc i))))"

text \<open>
  \<open>construct_df\<close> iterates over its argument, which raises \<open>TypeError\<close> for \<open>None\<close>,
  and prints the two counts before it returns the frame.
\<close>

definition construct_df ::
    "filesystem \<Rightarrow> path list option \<Rightarrow> event list \<times> (py_error + int photo_row list)" where
  "construct_df fs photos =
     (case photos of
        None \<Rightarrow> ([], Inl TypeError)
      | Some ps \<Rightarrow>
          (case construct_df_loop fs ps [] 0 of
             (out, Inl e) \<Rightarrow> (out, Inl e)
           | (out, Inr (df, i)) \<Rightarrow> (out @ [Photos_added i (length ps)], Inr df)))"

section \<open>The data frame of the application (app.py)\<close>

definition ASSETS_PATH :: "path \<Rightarrow> path" where
  "ASSETS_PATH cwd = cwd @ [''assets'']"

text \<open>
  \<open>df.day = df.day - (df.day.min() - 1)\<close>. The frame without rows has no columns, so
  reading its \<open>day\<close> attribute raises \<open>AttributeError\<close>.
\<close>

definition normalize_day :: "int photo_row list \<Rightarrow> py_error + int photo_row list" where
  "normalize_day df =
     (if df = [] then Inl AttributeError
      else Inr (map (\<lambda>r. r\<lparr>day := day r - (min_list (map day df) - 1)\<rparr>) df))"

text \<open>\<open>str\<close> of an integer: its decimal digits, after the sign.\<close>

fun str_of_nat :: "nat \<Rightarrow> string" where
  "str_of_nat n =
     (if n < 10 then [''0123456789'' ! n]
      else str_of_nat (n div 10) @ [''0123456789'' ! (n mod 10)])"

declare str_of_nat.simps [simp del]

definition str_of_int :: "int \<Rightarrow> string" where
  "str_of_int k = (if k < 0 then CHR ''-'' # str_of_nat (nat (- k)) else str_of_nat (nat k))"

text \<open>\<open>df.day = df.day.astype(str)\<close>\<close>

definition day_astype_str :: "int photo_row list \<Rightarrow> cell photo_row list" where
  "day_astype_str df =
     map (\<lambda>r. \<lparr>filename = filename r, datetime = datetime r, latitude = latitude r,
               longitude = longitude r, day = Str_cell (str_of_int (day r))\<rparr>) df"

text \<open>
  What \<open>get_df\<close> returns: the frame it built, or what \<open>pd.read_csv\<close> makes of the
  saved file, which is the library's work and is described further down.
\<close>

datatype frame = Read_csv node | Built "cell photo_row list"

text \<open>
  \<open>get_df\<close> in the working directory \<open>cur_dir\<close>; both constants of the module are
  computed from the same working directory. The file system is returned with the file
  that \<open>to_csv\<close> wrote.
\<close>

definition get_df :: "filesystem \<Rightarrow> path \<Rightarrow> event list \<times> (py_error + frame \<times> filesystem)" where
  "get_df fs cur_dir =
     (let saved = cur_dir @ [''saved_df.csv''] in
      if path_exists fs saved
      then (case fs saved of
              None \<Rightarrow> ([], Inl FileNotFoundError)
            | Some n \<Rightarrow> ([], Inr (Read_csv n, fs)))
      else case get_photos_from_path fs (ASSETS_PATH cur_dir) default_extensions of
             (out1, Inl e) \<Rightarrow> (out1, Inl e)
           | (out1, Inr photo_list) \<Rightarrow>
               (case construct_df fs photo_list of
                  (out2, Inl e) \<Rightarrow> (out1 @ out2, Inl e)
                | (out2, Inr df) \<Rightarrow>
                    (case normalize_day df of
                       Inl e \<Rightarrow> (out1 @ out2, Inl e)
                     | Inr df1 \<Rightarrow>
                         (let df2 = day_astype_str df1
                          in (out1 @ out2, Inr (Built df2, fs(saved \<mapsto> Csv_file df2)))))))"

section \<open>Predicates used in the statements\<close>

text \<open>The extension test at the head of the loop of \<open>construct_df\<close>.\<close>

definition accepted :: "path \<Rightarrow> bool" where
  "accepted photo = (lower (path_suffix photo) \<in> set [''.jpg'', ''.jpeg'', ''.heic''])"

text \<open>
  \<open>row_of fs photo r\<close>: the photo passes the extension test, its image opens, and the
  \<open>try\<close> block yields the row \<open>r\<close> for it.
\<close>

definition row_of :: "filesystem \<Rightarrow> path \<Rightarrow> int photo_row \<Rightarrow> bool" where
  "row_of fs photo r =
     (accepted photo \<and>
      (case get_image fs photo of
         Inl e \<Rightarrow> False
       | Inr img \<Rightarrow>
           snd (photo_record photo (get_labeled_exif (get_exif img)) (get_gps_info (get_exif img)))
             = Inr r))"

text \<open>
  \<open>missing_tag_first x\<close>: evaluating the tags of the image in the order of the \<open>try\<close>
  block, the first step that fails is the lookup of a tag that is missing. That is:
  \<open>GPSLatitude\<close> or \<open>GPSLatitudeRef\<close> is missing; or the latitude converts and
  \<open>GPSLongitude\<close> or \<open>GPSLongitudeRef\<close> is missing; or both coordinates convert and
  \<open>DateTime\<close> is missing.
\<close>

definition missing_tag_first :: "exif \<Rightarrow> bool" where
  "missing_tag_first x =
     (case get_gps_info x of
        None \<Rightarrow> False
      | Some gps \<Rightarrow>
          gps (Tag_name ''GPSLatitude'') = None \<or> gps (Tag_name ''GPSLatitudeRef'') = None \<or>
          (\<not> isl (snd (converted (Some gps) ''GPSLatitude'' ''GPSLatitudeRef'')) \<and>
           (gps (Tag_name ''GPSLongitude'') = None \<or> gps (Tag_name ''GPSLongitudeRef'') = None \<or>
            (\<not> isl (snd (converted (Some gps) ''GPSLongitude'' ''GPSLongitudeRef'')) \<and>
             get_labeled_exif x (Tag_name ''DateTime'') = None))))"


text \<open>
  Day normalization in the words of the specification: \<open>min_day\<close> is the minimum of the
  raw days of all records, and every record's day becomes \<open>raw_day - min_day + 1\<close>.
\<close>

definition day_normalization_spec :: "int photo_row list \<Rightarrow> int photo_row list" where
  "day_normalization_spec df =
     (let min_day = Min (set (map day df))
      in map (\<lambda>r. r\<lparr>day := day r - min_day + 1\<rparr>) df)"




section \<open>The saved file (pandas)\<close>

text \<open>
  Modelled from the documentation of pandas, whose code is not part of the repository:
  \<open>DataFrame.to_csv(path, index=False)\<close> and \<open>pd.read_csv(path)\<close>.

  \<open>to_csv\<close> writes a line with the column names and then one line for each row, the
  fields separated by commas: a string as it is, an integer in decimal, a timestamp
  and a float as text, and a missing float (NaN) as the empty field. The model keeps
  the table of the fields. How a field that holds a separator is quoted in the file,
  and which text stands for a timestamp and for a float, is left to the library: the
  last two are the parameters \<open>timestamp_text\<close> and \<open>float_text\<close>.
\<close>

definition float_field :: "(pyfloat \<Rightarrow> string) \<Rightarrow> pyfloat \<Rightarrow> string" where
  "float_field float_text x = (if x = NaN then [] else float_text x)"

definition cell_field :: "(pyfloat \<Rightarrow> string) \<Rightarrow> cell \<Rightarrow> string" where
  "cell_field float_text c =
     (case c of
        Int_cell k \<Rightarrow> str_of_int k
      | Str_cell s \<Rightarrow> s
      | Float_cell x \<Rightarrow> float_field float_text x)"

definition to_csv ::
    "(datetime \<Rightarrow> string) \<Rightarrow> (pyfloat \<Rightarrow> string) \<Rightarrow> cell photo_row list \<Rightarrow> string list list" where
  "to_csv timestamp_text float_text df =
     [''filename'', ''datetime'', ''latitude'', ''longitude'', ''day''] #
     map (\<lambda>r. [filename r, timestamp_text (datetime r), float_field float_text (latitude r),
               float_field float_text (longitude r), cell_field float_text (day r)]) df"

text \<open>
  \<open>read_csv\<close> takes the first line as the column names and decides the type of each
  column from all the fields of the column. A column whose fields are all integer
  literals holds integers. Otherwise, a column whose fields are all float literals or
  markers of a missing value holds floats, NaN for a marker. Any other column holds
  its fields as strings, and NaN for a marker. A file without a first line is an
  \<open>EmptyDataError\<close>. Which text is a float literal, and of which float, is the
  parameter \<open>float_value\<close>.
\<close>

definition is_integer_literal :: "string \<Rightarrow> bool" where
  "is_integer_literal s =
     (case s of
        [] \<Rightarrow> False
      | c # r \<Rightarrow>
          (if c \<in> set ''+-'' then r \<noteq> [] \<and> list_all (\<lambda>d. d \<in> set ''0123456789'') r
           else list_all (\<lambda>d. d \<in> set ''0123456789'') s))"

definition integer_of_literal :: "string \<Rightarrow> int" where
  "integer_of_literal s =
     (case s of
        [] \<Rightarrow> 0
      | c # r \<Rightarrow>
          (if c = CHR ''-'' then - int (int_of_group r)
           else if c = CHR ''+'' then int (int_of_group r)
           else int (int_of_group s)))"

definition na_values :: "string list" where
  "na_values = [[], ''#N/A'', ''#N/A N/A'', ''#NA'', ''-1.#IND'', ''-1.#QNAN'', ''-NaN'',
                ''-nan'', ''1.#IND'', ''1.#QNAN'', ''<NA>'', ''N/A'', ''NA'', ''NULL'', ''NaN'',
                ''None'', ''n/a'', ''nan'', ''null'']"

definition read_column :: "(string \<Rightarrow> pyfloat option) \<Rightarrow> string list \<Rightarrow> cell list" where
  "read_column float_value texts =
     (if list_all is_integer_literal texts
      then map (\<lambda>f. Int_cell (integer_of_literal f)) texts
      else if list_all (\<lambda>f. f \<in> set na_values \<or> float_value f \<noteq> None) texts
      then map (\<lambda>f. Float_cell (if f \<in> set na_values then NaN
                                  else case float_value f of Some x \<Rightarrow> x | None \<Rightarrow> NaN)) texts
      else map (\<lambda>f. if f \<in> set na_values then Float_cell NaN else Str_cell f) texts)"

definition read_csv ::
    "(string \<Rightarrow> pyfloat option) \<Rightarrow> string list list \<Rightarrow> py_error + (string \<times> cell list) list" where
  "read_csv float_value table =
     (case table of
        [] \<Rightarrow> Inl EmptyDataError
      | names # rows \<Rightarrow>
          Inr (map (\<lambda>(i, name).
                      (name, read_column float_value
                               (map (\<lambda>row. if i < length row then row ! i else []) rows)))
                 (enumerate 0 names)))"

text \<open>
  What \<open>pd.read_csv\<close> makes of a saved file, the result \<open>Read_csv n\<close> of \<open>get_df\<close>: for
  the file that \<open>to_csv\<close> wrote for a frame, the columns read from the table written.
  The content of any other file is not modelled.
\<close>

definition read_saved ::
    "(datetime \<Rightarrow> string) \<Rightarrow> (pyfloat \<Rightarrow> string) \<Rightarrow> (string \<Rightarrow> pyfloat option) \<Rightarrow> node \<Rightarrow>
     (py_error + (string \<times> cell list) list) option" where
  "read_saved timestamp_text float_text float_value n =
     (case n of
        Csv_file df \<Rightarrow> Some (read_csv float_value (to_csv timestamp_text float_text df))
      | _ \<Rightarrow> None)"

section \<open>An example world\<close>

text \<open>
  A directory of photos taken on the days 15, 17, 15 and 20 of a month, with a text
  file and a photo without GPS data among them; three photos with malformed tags; a
  directory that holds a sub-directory named like a photo; and a working directory
  whose only photo has a latitude with a rational of denominator 0.
\<close>

definition example_gps :: "string \<Rightarrow> (nat \<times> exif_value) list" where
  "example_gps latref =
     [(1, Str latref), (2, Numbers [Finite 10, Finite 30, Finite 0]), (3, Str ''W''),
      (4, Numbers [Finite 20, Finite 15, Finite 36])]"

definition example_photo :: "string \<Rightarrow> string \<Rightarrow> exif" where
  "example_photo dt latref =
     \<lparr>ifd0 = [(271, Str ''Camera''), (306, Str dt)], sub_ifds = [(34853, example_gps latref)]\<rparr>"

definition photo_without_gps :: exif where
  "photo_without_gps = \<lparr>ifd0 = [(306, Str ''2023:07:17 09:30:00'')], sub_ifds = []\<rparr>"

definition photo_without_datetime :: "string \<Rightarrow> exif" where
  "photo_without_datetime latref =
     \<lparr>ifd0 = [(271, Str ''Camera'')], sub_ifds = [(34853, example_gps latref)]\<rparr>"

definition photo_with_text_latitude :: exif where
  "photo_with_text_latitude =
     \<lparr>ifd0 = [(306, Str ''2023:07:15 10:00:00'')],
      sub_ifds = [(34853, [(1, Str ''N''), (2, Str ''48,51,30''), (3, Str ''W''),
                           (4, Numbers [Finite 20, Finite 15, Finite 36])])]\<rparr>"

definition photo_with_nan_latitude :: exif where
  "photo_with_nan_latitude =
     \<lparr>ifd0 = [(306, Str ''2023:07:15 10:00:00'')],
      sub_ifds = [(34853, [(1, Str ''N''), (2, Numbers [NaN, Finite 30, Finite 0]),
                           (3, Str ''W''), (4, Numbers [Finite 20, Finite 15, Finite 36])])]\<rparr>"

definition example_fs :: filesystem where
  "example_fs = map_of
     [([''trip'', ''assets''],
         Directory [''a.jpg'', ''b.JPG'', ''notes.txt'', ''c.heic'', ''d.jpeg'', ''e.jpg'']),
      ([''trip'', ''assets'', ''a.jpg''], Image_file (example_photo ''2023:07:15 10:00:00'' ''N'')),
      ([''trip'', ''assets'', ''b.JPG''], Image_file (example_photo ''2023:07:17 18:45:10'' ''s'')),
      ([''trip'', ''assets'', ''notes.txt''], Other_file),
      ([''trip'', ''assets'', ''c.heic''], Image_file photo_without_gps),
      ([''trip'', ''assets'', ''d.jpeg''], Image_file (example_photo ''2023:07:15 21:05:00'' ''N'')),
      ([''trip'', ''assets'', ''e.jpg''], Image_file (example_photo ''2023:07:20 08:00:00'' ''N'')),
      ([''broken'', ''date.jpg''], Image_file (example_photo ''2023-07-15 10:00:00'' ''N'')),
      ([''broken'', ''latitude.jpg''], Image_file photo_with_text_latitude),
      ([''broken'', ''ref.jpg''], Image_file (photo_without_datetime ''X'')),
      ([''archive''], Directory [''album.jpg'', ''x.jpg'']),
      ([''archive'', ''album.jpg''], Directory [''inside.jpg'']),
      ([''archive'', ''album.jpg'', ''inside.jpg''],
         Image_file (example_photo ''2023:07:15 10:00:00'' ''N'')),
      ([''archive'', ''x.jpg''], Image_file (example_photo ''2023:07:15 10:00:00'' ''N'')),
      ([''faulty'', ''assets''], Directory [''n.jpg'']),
      ([''faulty'', ''assets'', ''n.jpg''], Image_file photo_with_nan_latitude)]"

definition example_rows :: "int photo_row list" where
  "example_rows =
     [\<lparr>filename = ''a.jpg'',
       datetime = \<lparr>dt_year = 2023, dt_month = 7, dt_day = 15, dt_hour = 10, dt_minute = 0, dt_second = 0\<rparr>,
       latitude = Finite (21 / 2), longitude = Finite (- (2026 / 100)), day = 15\<rparr>,
      \<lparr>filename = ''b.JPG'',
       datetime = \<lparr>dt_year = 2023, dt_month = 7, dt_day = 17, dt_hour = 18, dt_minute = 45, dt_second = 10\<rparr>,
       latitude = Finite (- (21 / 2)), longitude = Finite (- (2026 / 100)), day = 17\<rparr>,
      \<lparr>filename = ''d.jpeg'',
       datetime = \<lparr>dt_year = 2023, dt_month = 7, dt_day = 15, dt_hour = 21, dt_minute = 5, dt_second = 0\<rparr>,
       latitude = Finite (21 / 2), longitude = Finite (- (2026 / 100)), day = 15\<rparr>,
      \<lparr>filename = ''e.jpg'',
       datetime = \<lparr>dt_year = 2023, dt_month = 7, dt_day = 20, dt_hour = 8, dt_minute = 0, dt_second = 0\<rparr>,
       latitude = Finite (21 / 2), longitude = Finite (- (2026 / 100)), day = 20\<rparr>]"

definition example_photos :: "path list" where
  "example_photos =
     [[''trip'', ''assets'', ''a.jpg''], [''trip'', ''assets'', ''b.JPG''],
      [''trip'', ''assets'', ''c.heic''], [''trip'', ''assets'', ''d.jpeg''],
      [''trip'', ''assets'', ''e.jpg'']]"

text \<open>The frame \<open>get_df\<close> builds from these photos.\<close>

definition example_frame :: "cell photo_row list" where
  "example_frame =
     [\<lparr>filename = ''a.jpg'',
       datetime = \<lparr>dt_year = 2023, dt_month = 7, dt_day = 15, dt_hour = 10, dt_minute = 0, dt_second = 0\<rparr>,
       latitude = Finite (21 / 2), longitude = Finite (- (2026 / 100)), day = Str_cell ''1''\<rparr>,
      \<lparr>filename = ''b.JPG'',
       datetime = \<lparr>dt_year = 2023, dt_month = 7, dt_day = 17, dt_hour = 18, dt_minute = 45, dt_second = 10\<rparr>,
       latitude = Finite (- (21 / 2)), longitude = Finite (- (2026 / 100)), day = Str_cell ''3''\<rparr>,
      \<lparr>filename = ''d.jpeg'',
       datetime = \<lparr>dt_year = 2023, dt_month = 7, dt_day = 15, dt_hour = 21, dt_minute = 5, dt_second = 0\<rparr>,
       latitude = Finite (21 / 2), longitude = Finite (- (2026 / 100)), day = Str_cell ''1''\<rparr>,
      \<lparr>filename = ''e.jpg'',
       datetime = \<lparr>dt_year = 2023, dt_month = 7, dt_day = 20, dt_hour = 8, dt_minute = 0, dt_second = 0\<rparr>,
       latitude = Finite (21 / 2), longitude = Finite (- (2026 / 100)), day = Str_cell ''6''\<rparr>]"


section \<open>Coordinate conversion: the sign and the formula\<close>

lemma upper_literals [simp]:
  "upper ''N'' = ''N''" "upper ''n'' = ''N''" "upper ''S'' = ''S''" "upper ''s'' = ''S''"
  "upper ''E'' = ''E''" "upper ''e'' = ''E''" "upper ''W'' = ''W''" "upper ''w'' = ''W''"
  "upper ''X'' = ''X''"
  by (simp_all add: upper_def upper_char_def)

text \<open>
  Claim C1. For a triple of finite numbers and a reference whose upper case is one of N, S,
  E, W, the conversion prints nothing and returns \<open>deg + min/60 + sec/3600\<close>, negated
  exactly when the upper case is S or W. The two instances of the specification hold,
  and for components that are not negative the result is not negative for N and E and
  not positive for S and W.
\<close>

theorem convert_coords_to_decimal_signed:
  assumes "upper ref \<in> {''N'', ''S'', ''E'', ''W''}"
  shows "convert_coords_to_decimal (Numbers [Finite deg, Finite mins, Finite sec]) (Str ref) =
           ([], Inr (Finite (if upper ref \<in> {''S'', ''W''} then - (deg + mins / 60 + sec / 3600)
                             else deg + mins / 60 + sec / 3600)))
       \<and> convert_coords_to_decimal (Numbers [Finite 10, Finite 30, Finite 0]) (Str ''N'') =
           ([], Inr (Finite 10.5))
       \<and> convert_coords_to_decimal (Numbers [Finite 10, Finite 30, Finite 0]) (Str ''S'') =
           ([], Inr (Finite (- 10.5)))
       \<and> (0 \<le> deg \<and> 0 \<le> mins \<and> 0 \<le> sec \<longrightarrow>
            (\<exists>v. snd (convert_coords_to_decimal (Numbers [Finite deg, Finite mins, Finite sec])
                         (Str ref)) = Inr (Finite v) \<and>
                 (upper ref \<in> {''N'', ''E''} \<longrightarrow> 0 \<le> v) \<and>
                 (upper ref \<in> {''S'', ''W''} \<longrightarrow> v \<le> 0)))"
proof -
  have formula:
    "convert_coords_to_decimal (Numbers [Finite deg, Finite mins, Finite sec]) (Str ref) =
       ([], Inr (Finite (if upper ref \<in> {''S'', ''W''} then - (deg + mins / 60 + sec / 3600)
                         else deg + mins / 60 + sec / 3600)))"
    using assms
    by (auto simp: convert_coords_to_decimal_def hemisphere_sign_def signed_decimal_def)
  have north: "convert_coords_to_decimal (Numbers [Finite 10, Finite 30, Finite 0]) (Str ''N'') =
      ([], Inr (Finite 10.5))"
    by (simp add: convert_coords_to_decimal_def hemisphere_sign_def signed_decimal_def)
  have south: "convert_coords_to_decimal (Numbers [Finite 10, Finite 30, Finite 0]) (Str ''S'') =
      ([], Inr (Finite (- 10.5)))"
    by (simp add: convert_coords_to_decimal_def hemisphere_sign_def signed_decimal_def)
  have sign: "\<exists>v. snd (convert_coords_to_decimal (Numbers [Finite deg, Finite mins, Finite sec])
                         (Str ref)) = Inr (Finite v) \<and>
                 (upper ref \<in> {''N'', ''E''} \<longrightarrow> 0 \<le> v) \<and>
                 (upper ref \<in> {''S'', ''W''} \<longrightarrow> v \<le> 0)"
    if nonneg: "0 \<le> deg \<and> 0 \<le> mins \<and> 0 \<le> sec"
  proof -
    from nonneg have "0 \<le> deg + mins / 60 + sec / 3600" by simp
    then show ?thesis unfolding formula by auto
  qed
  from formula north south sign show ?thesis by blast
qed

theorem convert_coords_to_decimal_signed_witness:
  "upper ''w'' \<in> {''N'', ''S'', ''E'', ''W''} \<and>
   convert_coords_to_decimal (Numbers [Finite 48, Finite 51, Finite 30]) (Str ''w'') =
     ([], Inr (Finite (- (48 + 51 / 60 + 30 / 3600))))"
  using convert_coords_to_decimal_signed [of "''w''" 48 51 30] by simp

text \<open>
  Claim C2. For a reference whose upper case is none of N, S, E, W, the conversion
  prints the message about the hemisphere and returns no value for any coordinates: it
  raises the exception of the float conversion when that fails, and \<open>UnboundLocalError\<close>
  for the multiplier that was never set otherwise.
\<close>

theorem convert_coords_to_decimal_invalid_ref:
  assumes "upper ref \<notin> {''N'', ''S'', ''E'', ''W''}"
  shows "convert_coords_to_decimal coords (Str ref) =
           ([Incorrect_hemisphere (Str ref)],
            Inl (case floats_of coords of Inl e \<Rightarrow> e | Inr fs \<Rightarrow> UnboundLocalError))
       \<and> (\<forall>v. snd (convert_coords_to_decimal coords (Str ref)) \<noteq> Inr v)"
  using assms
  by (auto simp: convert_coords_to_decimal_def hemisphere_sign_def signed_decimal_def
           split: sum.splits)

theorem convert_coords_to_decimal_invalid_ref_witness:
  "upper ''X'' \<notin> {''N'', ''S'', ''E'', ''W''} \<and>
   convert_coords_to_decimal (Numbers [Finite 10, Finite 30, Finite 0]) (Str ''X'') =
     ([Incorrect_hemisphere (Str ''X'')], Inl UnboundLocalError)"
  using convert_coords_to_decimal_invalid_ref
      [of "''X''" "Numbers [Finite 10, Finite 30, Finite 0]"]
  by simp

section \<open>Evaluating the example world\<close>

lemma labeled_example_gps:
  "labeled GPSTAGS (example_gps r) =
     [Tag_name ''GPSLatitudeRef'' \<mapsto> Str r, Tag_name ''GPSLatitude'' \<mapsto> Numbers [Finite 10, Finite 30, Finite 0],
      Tag_name ''GPSLongitudeRef'' \<mapsto> Str ''W'', Tag_name ''GPSLongitude'' \<mapsto> Numbers [Finite 20, Finite 15, Finite 36]]"
  by (simp add: labeled_def example_gps_def tag_label_def GPSTAGS_def)

lemma get_gps_info_eq: "get_gps_info x = Some (labeled GPSTAGS (get_ifd x 34853))"
  by (simp add: get_gps_info_def TAGS_def)

lemma get_gps_info_example_photo:
  "get_gps_info (example_photo dt r) = Some (labeled GPSTAGS (example_gps r))"
  by (simp add: get_gps_info_eq get_ifd_def example_photo_def)

lemma get_labeled_exif_example_photo:
  "get_labeled_exif (example_photo dt r) =
     [Tag_name ''Make'' \<mapsto> Str ''Camera'', Tag_name ''DateTime'' \<mapsto> Str dt]"
  by (simp add: get_labeled_exif_def labeled_def example_photo_def tag_label_def TAGS_def)

lemma longitude_example:
  "converted (Some (labeled GPSTAGS (example_gps r))) ''GPSLongitude'' ''GPSLongitudeRef'' =
     ([], Inr (Finite (- (2026 / 100))))"
  by (simp add: converted_def subscript_def labeled_example_gps convert_coords_to_decimal_def
        hemisphere_sign_def signed_decimal_def)

lemma latitude_example:
  "converted (Some (labeled GPSTAGS (example_gps r))) ''GPSLatitude'' ''GPSLatitudeRef'' =
     convert_coords_to_decimal (Numbers [Finite 10, Finite 30, Finite 0]) (Str r)"
  by (simp add: converted_def subscript_def labeled_example_gps)

lemma convert_north:
  "convert_coords_to_decimal (Numbers [Finite 10, Finite 30, Finite 0]) (Str ''N'') =
     ([], Inr (Finite (21 / 2)))"
  by (simp add: convert_coords_to_decimal_def hemisphere_sign_def signed_decimal_def)

lemma convert_south:
  "convert_coords_to_decimal (Numbers [Finite 10, Finite 30, Finite 0]) (Str ''s'') =
     ([], Inr (Finite (- (21 / 2))))"
  by (simp add: convert_coords_to_decimal_def hemisphere_sign_def signed_decimal_def)

lemma convert_unknown:
  "convert_coords_to_decimal (Numbers [Finite 10, Finite 30, Finite 0]) (Str ''X'') =
     ([Incorrect_hemisphere (Str ''X'')], Inl UnboundLocalError)"
  by (simp add: convert_coords_to_decimal_def hemisphere_sign_def signed_decimal_def)

lemma photo_record_example_photo:
  assumes "convert_coords_to_decimal (Numbers [Finite 10, Finite 30, Finite 0]) (Str r) = ([], Inr lat)"
    and "strptime (Str dt) = Inr date"
  shows "photo_record p (get_labeled_exif (example_photo dt r)) (get_gps_info (example_photo dt r)) =
     ([], Inr \<lparr>filename = path_name p, datetime = date, latitude = lat,
               longitude = Finite (- (2026 / 100)), day = int (dt_day date)\<rparr>)"
  using assms
  by (simp add: photo_record_def get_gps_info_example_photo latitude_example longitude_example
        get_labeled_exif_example_photo subscript_def)

lemma strptime_examples:
  "strptime (Str ''2023:07:15 10:00:00'') =
     Inr \<lparr>dt_year = 2023, dt_month = 7, dt_day = 15, dt_hour = 10, dt_minute = 0, dt_second = 0\<rparr>"
  "strptime (Str ''2023:07:17 18:45:10'') =
     Inr \<lparr>dt_year = 2023, dt_month = 7, dt_day = 17, dt_hour = 18, dt_minute = 45, dt_second = 10\<rparr>"
  "strptime (Str ''2023:07:15 21:05:00'') =
     Inr \<lparr>dt_year = 2023, dt_month = 7, dt_day = 15, dt_hour = 21, dt_minute = 5, dt_second = 0\<rparr>"
  "strptime (Str ''2023:07:20 08:00:00'') =
     Inr \<lparr>dt_year = 2023, dt_month = 7, dt_day = 20, dt_hour = 8, dt_minute = 0, dt_second = 0\<rparr>"
  "strptime (Str ''2023-07-15 10:00:00'') = Inl ValueError"
  by code_simp+


lemma snd_emit [simp]: "snd (emit out r) = snd r"
  by (simp add: emit_def)

lemma emit_pair [simp]: "emit out (a, b) = (out @ a, b)"
  by (simp add: emit_def)

lemma emit_Nil [simp]: "emit [] r = r"
  by (simp add: emit_def)

lemma loop_Cons:
  "construct_df_loop fs (photo # photos) df i =
     (if \<not> accepted photo then construct_df_loop fs photos df i
      else case get_image fs photo of
             Inl e \<Rightarrow> ([], Inl e)
           | Inr img \<Rightarrow>
               (case photo_record photo (get_labeled_exif (get_exif img)) (get_gps_info (get_exif img)) of
                  (out, Inl e) \<Rightarrow>
                    (if e = KeyError then emit out (construct_df_loop fs photos df i)
                     else (out, Inl e))
                | (out, Inr d) \<Rightarrow> emit out (construct_df_loop fs photos (df @ [d]) (Suc i))))"
  by (simp add: accepted_def Let_def split: sum.split)

lemma loop_filter:
  "construct_df_loop fs (filter accepted photos) df i = construct_df_loop fs photos df i"
proof (induction photos arbitrary: df i)
  case Nil
  show ?case by simp
next
  case (Cons photo photos)
  show ?case
    by (simp only: filter.simps loop_Cons Cons.IH split: if_split)
       (simp add: loop_Cons Cons.IH del: construct_df_loop.simps)
qed

lemma accepted_examples:
  "accepted [''trip'', ''assets'', ''a.jpg'']" "accepted [''trip'', ''assets'', ''b.JPG'']"
  "\<not> accepted [''trip'', ''assets'', ''notes.txt'']" "accepted [''trip'', ''assets'', ''c.heic'']"
  "accepted [''trip'', ''assets'', ''d.jpeg'']" "accepted [''trip'', ''assets'', ''e.jpg'']"
  "accepted [''broken'', ''date.jpg'']" "accepted [''broken'', ''latitude.jpg'']"
  "accepted [''broken'', ''ref.jpg'']"
  by (simp_all add: accepted_def path_suffix_def path_name_def rfind_def lower_def lower_char_def)

lemma get_image_examples:
  "get_image example_fs [''trip'', ''assets'', ''a.jpg''] = Inr (example_photo ''2023:07:15 10:00:00'' ''N'')"
  "get_image example_fs [''trip'', ''assets'', ''b.JPG''] = Inr (example_photo ''2023:07:17 18:45:10'' ''s'')"
  "get_image example_fs [''trip'', ''assets'', ''c.heic''] = Inr photo_without_gps"
  "get_image example_fs [''trip'', ''assets'', ''d.jpeg''] = Inr (example_photo ''2023:07:15 21:05:00'' ''N'')"
  "get_image example_fs [''trip'', ''assets'', ''e.jpg''] = Inr (example_photo ''2023:07:20 08:00:00'' ''N'')"
  "get_image example_fs [''broken'', ''date.jpg''] = Inr (example_photo ''2023-07-15 10:00:00'' ''N'')"
  "get_image example_fs [''broken'', ''latitude.jpg''] = Inr photo_with_text_latitude"
  "get_image example_fs [''broken'', ''ref.jpg''] = Inr (photo_without_datetime ''X'')"
  by (simp_all add: get_image_def example_fs_def)

lemma photo_record_without_gps:
  "photo_record p (get_labeled_exif photo_without_gps) (get_gps_info photo_without_gps) =
     ([], Inl KeyError)"
  by (simp add: photo_record_def converted_def subscript_def get_gps_info_eq get_ifd_def
        photo_without_gps_def labeled_def)

lemma photo_record_bad_date:
  "photo_record p (get_labeled_exif (example_photo ''2023-07-15 10:00:00'' ''N''))
       (get_gps_info (example_photo ''2023-07-15 10:00:00'' ''N'')) = ([], Inl ValueError)"
  by (simp add: photo_record_def get_gps_info_example_photo latitude_example longitude_example
        get_labeled_exif_example_photo subscript_def convert_north strptime_examples
        del: strptime.simps)

lemma photo_record_text_latitude:
  "photo_record p (get_labeled_exif photo_with_text_latitude) (get_gps_info photo_with_text_latitude) =
     ([], Inl ValueError)"
  by (simp add: photo_record_def converted_def subscript_def get_gps_info_eq get_ifd_def
        photo_with_text_latitude_def labeled_def tag_label_def GPSTAGS_def
        convert_coords_to_decimal_def hemisphere_sign_def float_of_char_def)

lemma photo_record_bad_ref:
  "photo_record p (get_labeled_exif (photo_without_datetime ''X''))
       (get_gps_info (photo_without_datetime ''X'')) =
     ([Incorrect_hemisphere (Str ''X'')], Inl UnboundLocalError)"
  by (simp add: photo_record_def converted_def subscript_def get_gps_info_eq get_ifd_def
        photo_without_datetime_def labeled_example_gps convert_unknown)

lemma missing_datetime_bad_ref:
  "subscript (get_labeled_exif (photo_without_datetime ''X'')) ''DateTime'' = Inl KeyError"
  by (simp add: subscript_def get_labeled_exif_def labeled_def photo_without_datetime_def
        tag_label_def TAGS_def)

lemma construct_df_example:
  "construct_df example_fs (Some example_photos) = ([Photos_added 4 5], Inr example_rows)"
  by (simp add: construct_df_def example_photos_def loop_Cons accepted_examples get_image_examples
        get_exif_def photo_record_without_gps example_rows_def path_name_def
        photo_record_example_photo [OF convert_north strptime_examples(1)]
        photo_record_example_photo [OF convert_south strptime_examples(2)]
        photo_record_example_photo [OF convert_north strptime_examples(3)]
        photo_record_example_photo [OF convert_north strptime_examples(4)]
        del: construct_df_loop.simps(2))

lemma get_photos_example:
  "get_photos_from_path example_fs [''trip'', ''assets''] default_extensions =
     ([], Inr (Some example_photos))"
  by (simp add: get_photos_from_path_def path_exists_def listdir_def example_fs_def
        default_extensions_def example_photos_def path_suffix_def path_name_def rfind_def
        lower_def lower_char_def)

section \<open>File discovery\<close>





lemma elsewhere_missing:
  "\<not> path_exists example_fs [''elsewhere'', ''assets'']"
  "\<not> path_exists example_fs [''elsewhere'', ''saved_df.csv'']"
  by (simp_all add: path_exists_def example_fs_def)

text \<open>
  Claim C5, evaluated where it fails. In a working directory without the folder
  \<open>assets\<close> and without a saved file, discovery prints the message and returns \<open>None\<close>;
  \<open>get_df\<close> passes that to \<open>construct_df\<close>, whose loop over \<open>None\<close> raises \<open>TypeError\<close>,
  and the exception leaves \<open>get_df\<close>.
\<close>

theorem get_df_missing_directory_raises:
  "get_photos_from_path example_fs (ASSETS_PATH [''elsewhere'']) default_extensions =
     ([Not_valid_path [''elsewhere'', ''assets'']], Inr None) \<and>
   get_df example_fs [''elsewhere''] = ([Not_valid_path [''elsewhere'', ''assets'']], Inl TypeError)"
  using elsewhere_missing
  by (simp add: get_df_def ASSETS_PATH_def get_photos_from_path_def construct_df_def)

text \<open>Discovery by itself raises nothing for a path that does not exist.\<close>

lemma get_photos_from_path_missing_directory:
  assumes "\<not> path_exists fs directory_path"
  shows "get_photos_from_path fs directory_path extensions =
           ([Not_valid_path directory_path], Inr None)"
  using assms by (simp add: get_photos_from_path_def)

section \<open>The loop of \<open>construct_df\<close>\<close>

lemma construct_df_snd:
  "snd (construct_df fs (Some ps)) =
     (case snd (construct_df_loop fs ps [] 0) of Inl e \<Rightarrow> Inl e | Inr (df, i) \<Rightarrow> Inr df)"
  by (simp add: construct_df_def split: prod.splits sum.splits)

lemma photo_record_Inr:
  assumes "snd (photo_record photo img_tags img_gps) = Inr r"
  shows "\<exists>v. filename r = path_name photo
       \<and> snd (converted img_gps ''GPSLatitude'' ''GPSLatitudeRef'') = Inr (latitude r)
       \<and> snd (converted img_gps ''GPSLongitude'' ''GPSLongitudeRef'') = Inr (longitude r)
       \<and> subscript img_tags ''DateTime'' = Inr v \<and> strptime v = Inr (datetime r)
       \<and> day r = int (dt_day (datetime r))"
  using assms
  by (auto simp: photo_record_def simp del: strptime.simps split: prod.splits sum.splits)

lemma loop_rows:
  "construct_df_loop fs photos df i = (out, Inr (df', i')) \<Longrightarrow> r \<in> set df' \<Longrightarrow>
   r \<in> set df \<or> (\<exists>photo \<in> set photos. row_of fs photo r)"
proof (induction photos arbitrary: df i out)
  case Nil
  then show ?case by simp
next
  case (Cons photo photos)
  show ?case
  proof (cases "accepted photo")
    case False
    with Cons.prems have "construct_df_loop fs photos df i = (out, Inr (df', i'))"
      by (simp add: loop_Cons del: construct_df_loop.simps)
    from Cons.IH [OF this Cons.prems(2)] show ?thesis by auto
  next
    case True
    show ?thesis
    proof (cases "get_image fs photo")
      case (Inl e)
      with True Cons.prems show ?thesis by (simp add: loop_Cons del: construct_df_loop.simps)
    next
      case (Inr img)
      obtain o1 res where pr:
        "photo_record photo (get_labeled_exif (get_exif img)) (get_gps_info (get_exif img)) = (o1, res)"
        by (cases "photo_record photo (get_labeled_exif (get_exif img)) (get_gps_info (get_exif img))")
      show ?thesis
      proof (cases res)
        case (Inl e)
        with True Inr pr Cons.prems obtain o2 where
          "construct_df_loop fs photos df i = (o2, Inr (df', i'))"
          by (cases "construct_df_loop fs photos df i")
             (auto simp: loop_Cons simp del: construct_df_loop.simps split: if_splits)
        from Cons.IH [OF this Cons.prems(2)] show ?thesis by auto
      next
        case (Inr d)
        with True \<open>get_image fs photo = Inr img\<close> pr Cons.prems obtain o2 where
          "construct_df_loop fs photos (df @ [d]) (Suc i) = (o2, Inr (df', i'))"
          by (cases "construct_df_loop fs photos (df @ [d]) (Suc i)")
             (auto simp: loop_Cons simp del: construct_df_loop.simps)
        from Cons.IH [OF this Cons.prems(2)]
        have "r \<in> set df \<or> r = d \<or> (\<exists>photo \<in> set photos. row_of fs photo r)" by auto
        moreover have "row_of fs photo d"
          using True \<open>get_image fs photo = Inr img\<close> pr Inr by (simp add: row_of_def)
        ultimately show ?thesis by auto
      qed
    qed
  qed
qed

lemma construct_df_rows:
  assumes "snd (construct_df fs (Some photos)) = Inr rows" and "r \<in> set rows"
  shows "\<exists>photo \<in> set photos. row_of fs photo r"
proof -
  obtain out res where loop: "construct_df_loop fs photos [] 0 = (out, res)"
    by (cases "construct_df_loop fs photos [] 0")
  with assms(1) obtain i where "res = Inr (rows, i)"
    by (cases res) (auto simp: construct_df_snd)
  with loop loop_rows [of fs photos "[]" 0 out rows i r] assms(2) show ?thesis by simp
qed

lemma row_of_filename: "row_of fs photo r \<Longrightarrow> accepted photo \<and> filename r = path_name photo"
  by (auto simp: row_of_def split: sum.splits dest: photo_record_Inr)

text \<open>
  Claim C10. Whatever list of paths it is given, \<open>construct_df\<close> tests the lower-cased
  suffix of each path against \<open>.jpg\<close>, \<open>.jpeg\<close> and \<open>.heic\<close> and passes over every
  other path without opening it: the outcome is that of the list with those paths
  removed. Every row of the frame it returns carries the name of a path of the list
  that passes the test.
\<close>

theorem construct_df_rechecks_extension:
  "snd (construct_df fs (Some photos)) = snd (construct_df fs (Some (filter accepted photos)))
   \<and> (\<forall>rows r. snd (construct_df fs (Some photos)) = Inr rows \<and> r \<in> set rows \<longrightarrow>
          (\<exists>photo \<in> set photos. accepted photo \<and> filename r = path_name photo))"
proof -
  have "snd (construct_df fs (Some photos)) = snd (construct_df fs (Some (filter accepted photos)))"
    by (simp only: construct_df_snd loop_filter)
  moreover have "\<exists>photo \<in> set photos. accepted photo \<and> filename r = path_name photo"
    if "snd (construct_df fs (Some photos)) = Inr rows" and "r \<in> set rows" for rows r
    using construct_df_rows [OF that] row_of_filename by blast
  ultimately show ?thesis by blast
qed

lemma construct_df_a:
  "construct_df example_fs (Some [[''trip'', ''assets'', ''a.jpg'']]) =
     ([Photos_added 1 1], Inr [hd example_rows])"
  by (simp add: construct_df_def loop_Cons accepted_examples get_image_examples
        get_exif_def example_rows_def path_name_def
        photo_record_example_photo [OF convert_north strptime_examples(1)]
        del: construct_df_loop.simps(2))

theorem construct_df_rechecks_extension_witness:
  "filter accepted [[''trip'', ''assets'', ''notes.txt''], [''trip'', ''assets'', ''a.jpg'']] =
     [[''trip'', ''assets'', ''a.jpg'']] \<and>
   snd (construct_df example_fs
          (Some [[''trip'', ''assets'', ''notes.txt''], [''trip'', ''assets'', ''a.jpg'']])) =
     Inr [hd example_rows]"
  using construct_df_rechecks_extension
      [of example_fs "[[''trip'', ''assets'', ''notes.txt''], [''trip'', ''assets'', ''a.jpg'']]"]
  by (simp add: accepted_examples construct_df_a)

section \<open>Malformed values and missing tags\<close>

text \<open>
  Claim C3, evaluated where it fails. A photo whose \<open>DateTime\<close> is written with dashes,
  and a photo whose latitude is the text \<open>48,51,30\<close>, each followed by a well-formed
  photo: \<open>construct_df\<close> raises \<open>ValueError\<close> and returns no frame, although the
  well-formed photo alone yields its row.
\<close>

theorem construct_df_malformed_value_aborts:
  "construct_df example_fs (Some [[''broken'', ''date.jpg''], [''trip'', ''assets'', ''a.jpg'']]) =
     ([], Inl ValueError)
   \<and> construct_df example_fs
        (Some [[''broken'', ''latitude.jpg''], [''trip'', ''assets'', ''a.jpg'']]) =
     ([], Inl ValueError)
   \<and> construct_df example_fs (Some [[''trip'', ''assets'', ''a.jpg'']]) =
     ([Photos_added 1 1], Inr [hd example_rows])"
proof -
  have "construct_df example_fs
          (Some [[''broken'', ''date.jpg''], [''trip'', ''assets'', ''a.jpg'']]) =
        ([], Inl ValueError)"
    by (simp add: construct_df_def loop_Cons accepted_examples get_image_examples get_exif_def
          photo_record_bad_date del: construct_df_loop.simps(2))
  moreover have "construct_df example_fs
          (Some [[''broken'', ''latitude.jpg''], [''trip'', ''assets'', ''a.jpg'']]) =
        ([], Inl ValueError)"
    by (simp add: construct_df_def loop_Cons accepted_examples get_image_examples get_exif_def
          photo_record_text_latitude del: construct_df_loop.simps(2))
  ultimately show ?thesis
    using construct_df_a by simp
qed

lemma convert_Inr_silent:
  "convert_coords_to_decimal coords ref = (out, Inr v) \<Longrightarrow> out = []"
  by (auto simp: convert_coords_to_decimal_def signed_decimal_def Let_def
           split: sum.splits option.splits if_splits)

lemma converted_Inr_silent:
  "\<not> isl (snd (converted img_gps k kref)) \<Longrightarrow> fst (converted img_gps k kref) = []"
proof -
  assume a: "\<not> isl (snd (converted img_gps k kref))"
  obtain out res where c: "converted img_gps k kref = (out, res)"
    by (cases "converted img_gps k kref")
  with a obtain v where "res = Inr v" by (cases res) auto
  with c have "out = []"
    by (auto simp: converted_def split: option.splits sum.splits dest: convert_Inr_silent)
  with c show ?thesis by simp
qed

lemma converted_missing:
  "gps (Tag_name k) = None \<or> gps (Tag_name kref) = None \<Longrightarrow>
   converted (Some gps) k kref = ([], Inl KeyError)"
  by (auto simp: converted_def subscript_def split: option.splits)

lemma photo_record_missing_tag:
  assumes "missing_tag_first x"
  shows "photo_record photo (get_labeled_exif x) (get_gps_info x) = ([], Inl KeyError)"
proof -
  from assms obtain gps where gps: "get_gps_info x = Some gps"
    by (auto simp: missing_tag_first_def split: option.splits)
  let ?lat = "converted (Some gps) ''GPSLatitude'' ''GPSLatitudeRef''"
  let ?lon = "converted (Some gps) ''GPSLongitude'' ''GPSLongitudeRef''"
  from assms gps consider
      (lat) "gps (Tag_name ''GPSLatitude'') = None \<or> gps (Tag_name ''GPSLatitudeRef'') = None"
    | (lon) "\<not> isl (snd ?lat)"
        "gps (Tag_name ''GPSLongitude'') = None \<or> gps (Tag_name ''GPSLongitudeRef'') = None"
    | (date) "\<not> isl (snd ?lat)" "\<not> isl (snd ?lon)"
        "get_labeled_exif x (Tag_name ''DateTime'') = None"
    by (auto simp: missing_tag_first_def)
  then show ?thesis
  proof cases
    case lat
    then show ?thesis
      by (simp add: photo_record_def gps converted_missing)
  next
    case lon
    from lon(1) obtain v where "?lat = ([], Inr v)"
      using converted_Inr_silent [OF lon(1)]
      by (cases ?lat; cases "snd ?lat") auto
    then show ?thesis
      using lon(2) by (simp add: photo_record_def gps converted_missing)
  next
    case date
    from date(1) obtain v where "?lat = ([], Inr v)"
      using converted_Inr_silent [OF date(1)]
      by (cases ?lat; cases "snd ?lat") auto
    moreover from date(2) obtain w where "?lon = ([], Inr w)"
      using converted_Inr_silent [OF date(2)]
      by (cases ?lon; cases "snd ?lon") auto
    ultimately show ?thesis
      using date(3) by (simp add: photo_record_def gps subscript_def)
  qed
qed

lemma loop_skips:
  assumes "accepted photo" and "get_image fs photo = Inr img"
    and "missing_tag_first (get_exif img)"
  shows "construct_df_loop fs (before @ photo # after) df i =
         construct_df_loop fs (before @ after) df i"
proof (induction before arbitrary: df i)
  case Nil
  show ?case
    using assms(1,2) photo_record_missing_tag [OF assms(3)]
    by (simp add: loop_Cons del: construct_df_loop.simps)
next
  case (Cons p before)
  show ?case
    by (simp only: append_Cons loop_Cons Cons.IH)
qed

text \<open>
  Claim C4, evaluated where it fails. The photo \<open>ref.jpg\<close> has no \<open>DateTime\<close> tag, and
  its latitude reference is \<open>X\<close>. The conversion of the latitude raises
  \<open>UnboundLocalError\<close> before the missing tag is looked up, the exception leaves
  \<open>construct_df\<close>, and the well-formed photo after it is not processed.
\<close>

theorem construct_df_missing_datetime_aborts:
  "get_image example_fs [''broken'', ''ref.jpg''] = Inr (photo_without_datetime ''X'') \<and>
   subscript (get_labeled_exif (photo_without_datetime ''X'')) ''DateTime'' = Inl KeyError \<and>
   construct_df example_fs (Some [[''broken'', ''ref.jpg''], [''trip'', ''assets'', ''a.jpg'']]) =
     ([Incorrect_hemisphere (Str ''X'')], Inl UnboundLocalError)"
  by (simp add: construct_df_def loop_Cons accepted_examples get_image_examples get_exif_def
        photo_record_bad_ref missing_datetime_bad_ref
        del: construct_df_loop.simps(2))

text \<open>
  Where the lookup of a missing tag is the first step of the \<open>try\<close> block to fail, the
  photo is passed over and the loop goes on as on the list without it; a photo without
  GPS data is such a photo.
\<close>

lemma construct_df_skips_missing_tag:
  assumes "accepted photo" and "get_image fs photo = Inr img"
    and "missing_tag_first (get_exif img)"
  shows "construct_df_loop fs (before @ photo # after) df i =
           construct_df_loop fs (before @ after) df i
       \<and> snd (construct_df fs (Some (before @ photo # after))) =
           snd (construct_df fs (Some (before @ after)))"
  using loop_skips [OF assms] by (simp add: construct_df_snd)

lemma missing_tag_first_without_gps: "missing_tag_first (get_exif photo_without_gps)"
  by (simp add: missing_tag_first_def get_exif_def get_gps_info_eq get_ifd_def
        photo_without_gps_def labeled_def)

section \<open>Day normalization\<close>

lemma normalize_day_spec:
  "df \<noteq> [] \<Longrightarrow> normalize_day df = Inr (day_normalization_spec df)"
  by (simp add: normalize_day_def day_normalization_spec_def min_list_Min)

lemma get_df_builds:
  assumes "\<not> path_exists fs (cur_dir @ [''saved_df.csv''])"
    and "get_photos_from_path fs (ASSETS_PATH cur_dir) default_extensions = (out1, Inr photo_list)"
    and "construct_df fs photo_list = (out2, Inr df)"
    and "df \<noteq> []"
  shows "get_df fs cur_dir =
           (out1 @ out2,
            Inr (Built (day_astype_str (day_normalization_spec df)),
                 fs(cur_dir @ [''saved_df.csv''] \<mapsto>
                      Csv_file (day_astype_str (day_normalization_spec df)))))"
  using assms by (simp add: get_df_def normalize_day_spec Let_def)

text \<open>
  Claim C6. For a frame with at least one row, the normalization of \<open>get_df\<close> takes the
  minimum of the raw days of all rows and replaces every day by
  \<open>raw_day - min_day + 1\<close>, which is the normalization of the specification; raw days
  15, 17, 15, 20 become 1, 3, 1, 6. \<open>get_df\<close> applies it to the frame of \<open>construct_df\<close>
  before it turns the column into strings.
\<close>

theorem normalize_day_from_minimum:
  assumes "df \<noteq> []"
  shows "normalize_day df =
           Inr (map (\<lambda>r. r\<lparr>day := day r - Min (set (map day df)) + 1\<rparr>) df)
       \<and> normalize_day df = Inr (day_normalization_spec df)
       \<and> (map day df = [15, 17, 15, 20] \<longrightarrow>
            map day (day_normalization_spec df) = [1, 3, 1, 6])
       \<and> (\<not> path_exists fs (cur_dir @ [''saved_df.csv'']) \<and>
            get_photos_from_path fs (ASSETS_PATH cur_dir) default_extensions =
              (out1, Inr photo_list) \<and>
            construct_df fs photo_list = (out2, Inr df) \<longrightarrow>
            get_df fs cur_dir =
              (out1 @ out2,
               Inr (Built (day_astype_str (day_normalization_spec df)),
                    fs(cur_dir @ [''saved_df.csv''] \<mapsto>
                         Csv_file (day_astype_str (day_normalization_spec df))))))"
proof -
  have spec: "normalize_day df = Inr (day_normalization_spec df)"
    using assms by (rule normalize_day_spec)
  have formula: "day_normalization_spec df =
      map (\<lambda>r. r\<lparr>day := day r - Min (set (map day df)) + 1\<rparr>) df"
    by (simp add: day_normalization_spec_def)
  have example: "map day (day_normalization_spec df) = [1, 3, 1, 6]"
    if "map day df = [15, 17, 15, 20]"
  proof -
    have "map day (day_normalization_spec df) =
        map (\<lambda>d. d - Min (set (map day df)) + 1) (map day df)"
      by (simp add: day_normalization_spec_def comp_def)
    then show ?thesis by (simp add: that)
  qed
  show ?thesis
    using spec formula example get_df_builds [OF _ _ _ assms, of fs cur_dir out1 photo_list out2]
    by simp
qed

lemma example_rows_days: "example_rows \<noteq> []" "map day example_rows = [15, 17, 15, 20]"
  by (simp_all add: example_rows_def)

theorem normalize_day_from_minimum_witness:
  "example_rows \<noteq> [] \<and> map day example_rows = [15, 17, 15, 20] \<and>
   map_sum id (map day) (normalize_day example_rows) = Inr [1, 3, 1, 6]"
proof -
  note inst = normalize_day_from_minimum
      [OF example_rows_days(1), of example_fs "[''trip'']" "[]" "Some example_photos" "[]"]
  from inst have spec: "normalize_day example_rows = Inr (day_normalization_spec example_rows)"
    by (rule conjunct1 [OF conjunct2])
  from inst example_rows_days(2)
  have "map day (day_normalization_spec example_rows) = [1, 3, 1, 6]"
    by (simp only: simp_thms)
  with spec example_rows_days show ?thesis by simp
qed

section \<open>The rows of the frame that \<open>get_df\<close> builds\<close>












lemma str_of_int_examples:
  "str_of_int 1 = ''1''" "str_of_int 3 = ''3''" "str_of_int 6 = ''6''"
  by (simp_all add: str_of_int_def str_of_nat.simps)

lemma example_saved_absent: "\<not> path_exists example_fs [''trip'', ''saved_df.csv'']"
  by (simp add: path_exists_def example_fs_def)

lemma example_frame_eq: "day_astype_str (day_normalization_spec example_rows) = example_frame"
  by (simp add: day_astype_str_def day_normalization_spec_def example_rows_def example_frame_def
        str_of_int_examples)

lemma get_df_example:
  "get_df example_fs [''trip''] =
     ([Photos_added 4 5],
      Inr (Built example_frame, example_fs([''trip'', ''saved_df.csv''] \<mapsto> Csv_file example_frame)))"
  using get_df_builds [of example_fs "[''trip'']" "[]" "Some example_photos" "[Photos_added 4 5]"
      example_rows]
  by (simp add: example_saved_absent ASSETS_PATH_def get_photos_example construct_df_example
        example_rows_days example_frame_eq)








section \<open>The frame that is read back\<close>

lemma get_df_second_run:
  "get_df (example_fs([''trip'', ''saved_df.csv''] \<mapsto> Csv_file example_frame)) [''trip''] =
     ([], Inr (Read_csv (Csv_file example_frame),
               example_fs([''trip'', ''saved_df.csv''] \<mapsto> Csv_file example_frame)))"
  by (simp add: get_df_def path_exists_def)

lemma read_day_column:
  "read_column float_value [''1'', ''3'', ''1'', ''6''] = [Int_cell 1, Int_cell 3, Int_cell 1, Int_cell 6]"
  by (simp add: read_column_def is_integer_literal_def integer_of_literal_def int_of_group_def
        digit_value_def)

text \<open>
  Claim C8, evaluated where it fails. The first run of \<open>get_df\<close> in the directory
  \<open>trip\<close> builds a frame whose days are the strings \<open>1\<close>, \<open>3\<close>, \<open>1\<close>, \<open>6\<close> and writes it;
  the second run reads the file that was written. Whatever text stands for the
  timestamps and the floats, the column \<open>day\<close> of the file holds integer literals only,
  so \<open>read_csv\<close> gives the integers 1, 3, 1, 6: the days read back are not the days
  written.
\<close>

theorem get_df_reloads_day_as_integer:
  "snd (get_df example_fs [''trip'']) =
     Inr (Built example_frame, example_fs([''trip'', ''saved_df.csv''] \<mapsto> Csv_file example_frame)) \<and>
   snd (get_df (example_fs([''trip'', ''saved_df.csv''] \<mapsto> Csv_file example_frame)) [''trip'']) =
     Inr (Read_csv (Csv_file example_frame),
          example_fs([''trip'', ''saved_df.csv''] \<mapsto> Csv_file example_frame)) \<and>
   map day example_frame = [Str_cell ''1'', Str_cell ''3'', Str_cell ''1'', Str_cell ''6''] \<and>
   map_option (map_sum id (\<lambda>columns. map_of columns ''day''))
     (read_saved timestamp_text float_text float_value (Csv_file example_frame)) =
     Some (Inr (Some [Int_cell 1, Int_cell 3, Int_cell 1, Int_cell 6]))"
proof -
  have first: "snd (get_df example_fs [''trip'']) =
     Inr (Built example_frame, example_fs([''trip'', ''saved_df.csv''] \<mapsto> Csv_file example_frame))"
    by (simp add: get_df_example)
  have second:
    "snd (get_df (example_fs([''trip'', ''saved_df.csv''] \<mapsto> Csv_file example_frame)) [''trip'']) =
     Inr (Read_csv (Csv_file example_frame),
          example_fs([''trip'', ''saved_df.csv''] \<mapsto> Csv_file example_frame))"
    by (simp add: get_df_second_run)
  have written: "map day example_frame =
      [Str_cell ''1'', Str_cell ''3'', Str_cell ''1'', Str_cell ''6'']"
    by (simp add: example_frame_def)
  have "map_option (map_sum id (\<lambda>columns. map_of columns ''day''))
     (read_saved timestamp_text float_text float_value (Csv_file example_frame)) =
     Some (Inr (Some (read_column float_value [''1'', ''3'', ''1'', ''6''])))"
    by (simp add: read_saved_def read_csv_def to_csv_def example_frame_def enumerate_eq_zip
          upt_rec cell_field_def)
  then have read: "map_option (map_sum id (\<lambda>columns. map_of columns ''day''))
     (read_saved timestamp_text float_text float_value (Csv_file example_frame)) =
     Some (Inr (Some [Int_cell 1, Int_cell 3, Int_cell 1, Int_cell 6]))"
    by (simp only: read_day_column)
  from first second written read show ?thesis by (intro conjI)
qed

end
